theory Spec2Isabelle
  imports Main "HOL-Library.Word" "HOL-Library.Sublist"
begin

section \<open>The Pin tracer of Triton: \<^verbatim>\<open>src/tracer/pin/main.cpp\<close>\<close>

text \<open>
  The pintool keeps its configuration and its gates in namespace-level globals
  (\<^verbatim>\<open>analysisTrigger\<close>, \<^verbatim>\<open>options::...\<close>, \<^verbatim>\<open>context::...\<close>, \<^verbatim>\<open>snapshot\<close>).
  They are gathered in one record that every callback takes and returns.
  \<^verbatim>\<open>PIN_LockClient\<close>/\<^verbatim>\<open>PIN_UnlockClient\<close> bracket the callbacks; one callback is
  modelled as one atomic step, so the lock does not appear.

  Addresses are \<^verbatim>\<open>triton::__uint\<close> (64 bits on the x86-64 build), thread ids are Pin's
  \<^verbatim>\<open>THREADID\<close> (32 bits, unsigned), and the unset target thread is \<^verbatim>\<open>-1\<close>.
  Strings stand for NUL-terminated C strings.
\<close>

subsection \<open>Global state\<close>

type_synonym addr = "64 word"
type_synonym thread = "32 word"
type_synonym byte = "8 word"

record 'w pintool =
  analysisTrigger :: bool
  targetThreadId :: thread
  startAnalysisFromEntry :: bool
  startAnalysisFromSymbol :: "string option"
  startAnalysisFromAddr :: "addr set"
  startAnalysisFromOffset :: "addr set"
  imageBlacklist :: "string list"
  imageWhitelist :: "string list"
  callbackRoutineEntry :: "(string \<times> nat) list"
  callbackRoutineExit :: "(string \<times> nat) list"
  mustBeExecuted :: bool
  lastContext :: nat
  snapshotLocked :: bool
  snapshotMustBeRestored :: bool
  snapshotMemory :: "addr \<rightharpoonup> byte"
  memory :: "addr \<Rightarrow> byte"
  world :: 'w

text \<open>
  \<open>world\<close> is everything the callbacks hand on without looking at it: the Instruction
  objects of libTriton, the registers behind a \<^verbatim>\<open>CONTEXT*\<close>, the state of the Python
  interpreter. \<open>lastContext\<close> and the Instruction arguments are handles into it.

  What Pin answers about the running process is read-only for this file.
\<close>

record pin =
  PIN_ThreadId :: thread
  RTN_FindNameByAddress :: "addr \<Rightarrow> string"
  getImageName :: "addr \<Rightarrow> string"
  getBaseAddress :: "addr \<Rightarrow> addr"

text \<open>
  Modelled from the spec: \<^verbatim>\<open>getInsOffset\<close> lives in the pintool's utilities, which are
  not part of the sources at hand. The specification gives it as the address minus the base
  of the image that owns the address.
\<close>

definition getInsOffset :: "pin \<Rightarrow> addr \<Rightarrow> addr" where
  "getInsOffset p address = address - getBaseAddress p address"

subsection \<open>Trigger and range selector\<close>

text \<open>
  Modelled from the spec: the \<^verbatim>\<open>Trigger\<close> class (\<^verbatim>\<open>trigger.hpp\<close>) is a single boolean with
  \<^verbatim>\<open>getState\<close> and \<^verbatim>\<open>update\<close>; it is the field \<open>analysisTrigger\<close>.
\<close>

definition toggleWrapper :: "bool \<Rightarrow> 'w pintool \<Rightarrow> 'w pintool" where
  "toggleWrapper flag g = g\<lparr>analysisTrigger := flag\<rparr>"

definition checkUnlockAnalysis :: "pin \<Rightarrow> addr \<Rightarrow> 'w pintool \<Rightarrow> bool \<times> 'w pintool" where
  "checkUnlockAnalysis p address g =
    (if targetThreadId g \<noteq> - 1 then (False, g)
     else if startAnalysisFromSymbol g \<noteq> None then
       (if Some (RTN_FindNameByAddress p address) = startAnalysisFromSymbol g
        then (True, toggleWrapper True (g\<lparr>targetThreadId := PIN_ThreadId p\<rparr>))
        else (False, g))
     else if address \<in> startAnalysisFromAddr g
       then (True, toggleWrapper True (g\<lparr>targetThreadId := PIN_ThreadId p\<rparr>))
     else if getInsOffset p address \<in> startAnalysisFromOffset g
       then (True, toggleWrapper True (g\<lparr>targetThreadId := PIN_ThreadId p\<rparr>))
     else (False, g))"

subsection \<open>Image filter\<close>

text \<open>
  \<^verbatim>\<open>strstr(haystack, needle)\<close> of the C library is non-null exactly when \<open>needle\<close> occurs
  in \<open>haystack\<close> as a contiguous block; the empty needle occurs everywhere.
\<close>

fun strstr :: "string \<Rightarrow> string \<Rightarrow> bool" where
  "strstr [] needle = (needle = [])"
| "strstr (c # cs) needle = (prefix needle (c # cs) \<or> strstr cs needle)"

text \<open>The two \<^verbatim>\<open>for\<close> loops over the lists, leaving at the first hit.\<close>

fun blacklist_loop :: "string \<Rightarrow> string list \<Rightarrow> bool" where
  "blacklist_loop name [] = False"
| "blacklist_loop name (it # rest) =
     (if strstr name it then True else blacklist_loop name rest)"

definition instructionBlacklisted :: "pin \<Rightarrow> addr \<Rightarrow> 'w pintool \<Rightarrow> bool" where
  "instructionBlacklisted p address g =
     blacklist_loop (getImageName p address) (imageBlacklist g)"

fun whitelist_loop :: "string \<Rightarrow> string list \<Rightarrow> bool" where
  "whitelist_loop name [] = False"
| "whitelist_loop name (it # rest) =
     (if strstr name it then True else whitelist_loop name rest)"

definition instructionWhitelisted :: "pin \<Rightarrow> addr \<Rightarrow> 'w pintool \<Rightarrow> bool" where
  "instructionWhitelisted p address g =
     (if imageWhitelist g = [] then True
      else whitelist_loop (getImageName p address) (imageWhitelist g))"

text \<open>
  The test of \<^verbatim>\<open>TRACE_Instrumentation\<close> (line 576) skips the instruction when it is
  blacklisted or not whitelisted; \<open>filterImage\<close> is its negation: the instruction is kept.
\<close>

definition filterImage :: "pin \<Rightarrow> addr \<Rightarrow> 'w pintool \<Rightarrow> bool" where
  "filterImage p address g =
     (\<not> (instructionBlacklisted p address g = True \<or> instructionWhitelisted p address g = False))"

subsection \<open>Calls that leave the file\<close>

text \<open>
  Every call into libTriton, into the callback dispatcher (\<^verbatim>\<open>callbacks::...\<close>), into the
  context and snapshot engines is written into a log, in the order the callback makes
  them. The first argument of the Instruction events is the handle of \<^verbatim>\<open>tritonInst\<close>,
  the argument of \<open>RestoreSnapshot\<close> and the second one of \<open>SetupContextRegister\<close> the
  handle of \<^verbatim>\<open>ctx\<close>. \<open>SetTrust i b\<close> is the loop \<^verbatim>\<open>op->setTrust(b)\<close> over the operands of
  the Instruction.
\<close>

datatype event =
    PreProcessing nat thread
  | PartialReset nat
  | SetOpcodes nat addr "32 word"
  | SetAddress nat addr
  | SetThreadId nat thread
  | SetupContextRegister nat nat
  | Disassembly nat
  | SetTrust nat bool
  | BeforeIRProc nat
  | Reset nat
  | ExecuteContext
  | BuildSemantics nat
  | Before nat
  | RestoreSnapshot nat
  | PostProcessing nat thread
  | AddModification addr byte
  | Signals thread int
  | ImageLoad string addr addr
  | Exit int

text \<open>
  The user hooks run Python code that reaches the globals through the bindings, so a
  hook is any function on the whole state. The operations of libTriton and
  \<^verbatim>\<open>setupContextRegister\<close> work on the Instruction only, that is on \<open>world\<close>.
  A signals hook may not come back (\<open>None\<close>). \<^verbatim>\<open>executeContext\<close> and
  \<^verbatim>\<open>restoreSnapshot\<close> give the thread a context through the DBI engine: either the call
  comes back (\<open>Back\<close>), or the thread goes on in that context and the call never comes
  back (\<open>Away\<close>); both carry the globals that the call left.
\<close>

datatype 's handover = Back 's | Away 's

record 'w hooks =
  preProcessing :: "nat \<Rightarrow> thread \<Rightarrow> 'w pintool \<Rightarrow> 'w pintool"
  beforeIRProc :: "nat \<Rightarrow> 'w pintool \<Rightarrow> 'w pintool"
  before :: "nat \<Rightarrow> 'w pintool \<Rightarrow> 'w pintool"
  postProcessing :: "nat \<Rightarrow> thread \<Rightarrow> 'w pintool \<Rightarrow> 'w pintool"
  imageLoad :: "string \<Rightarrow> addr \<Rightarrow> addr \<Rightarrow> 'w pintool \<Rightarrow> 'w pintool"
  signals :: "thread \<Rightarrow> int \<Rightarrow> 'w pintool \<Rightarrow> 'w pintool option"
  executeContext :: "'w pintool \<Rightarrow> 'w pintool handover"
  restoreSnapshot :: "nat \<Rightarrow> 'w pintool \<Rightarrow> 'w pintool handover"
  libTriton :: "event \<Rightarrow> 'w \<Rightarrow> 'w"

definition lib :: "'w hooks \<Rightarrow> 'w pintool \<Rightarrow> event \<Rightarrow> 'w pintool" where
  "lib h g e = g\<lparr>world := libTriton h e (world g)\<rparr>"

text \<open>How a callback ends: it returns to Pin, the process exits, a hook never came back,
  or the thread was resumed in another context before the callback reached its end.\<close>

datatype 's outcome = Returned 's | Exited int | Diverted | Resumed 's

text \<open>
  Modelled from the spec: \<^verbatim>\<open>context::executeContext\<close> (\<^verbatim>\<open>context.hpp\<close>) is not part of the
  sources at hand. The specification says that it applies the queued context to the live
  thread through the DBI engine and clears the must-execute flag, and that the override
  short-circuits the semantics building of the dynamic execution that asked for it: the
  thread goes on in the queued context, and the call does not come back to the callback.
  \<open>apply_queued\<close> is what the queued context does to the thread.
\<close>

definition executeContext_spec :: "('w \<Rightarrow> 'w) \<Rightarrow> 'w pintool \<Rightarrow> 'w pintool handover" where
  "executeContext_spec apply_queued g =
     Away (g\<lparr>world := apply_queued (world g), mustBeExecuted := False\<rparr>)"

text \<open>
  Modelled from the spec: the \<^verbatim>\<open>Snapshot\<close> class (\<^verbatim>\<open>snapshot.hpp\<close>) is not part of the
  sources at hand. \<^verbatim>\<open>isLocked\<close> and \<^verbatim>\<open>mustBeRestored\<close> read the fields \<open>snapshotLocked\<close>
  and \<open>snapshotMustBeRestored\<close>; \<^verbatim>\<open>addModification\<close> records the byte unless the snapshot
  is locked or the address has a byte already.
\<close>

definition addModification :: "addr \<Rightarrow> byte \<Rightarrow> 'w pintool \<Rightarrow> 'w pintool" where
  "addModification mem b g =
     (if snapshotLocked g then g
      else case snapshotMemory g mem of
             Some old \<Rightarrow> g
           | None \<Rightarrow> g\<lparr>snapshotMemory := (snapshotMemory g)(mem \<mapsto> b)\<rparr>)"

subsection \<open>\<^verbatim>\<open>callbackBefore\<close>\<close>

text \<open>Lines 192 to 209: the context reference, the Instruction, the disassembly, the trust
  flags.\<close>

definition before_setup_calls :: "nat \<Rightarrow> addr \<Rightarrow> 32 word \<Rightarrow> nat \<Rightarrow> thread \<Rightarrow> event list" where
  "before_setup_calls tritonInst address sz ctx threadId =
     [PartialReset tritonInst, SetOpcodes tritonInst address sz,
      SetAddress tritonInst address, SetThreadId tritonInst threadId,
      SetupContextRegister tritonInst ctx, Disassembly tritonInst, SetTrust tritonInst True]"

definition before_setup ::
  "'w hooks \<Rightarrow> nat \<Rightarrow> addr \<Rightarrow> 32 word \<Rightarrow> nat \<Rightarrow> thread \<Rightarrow> 'w pintool \<Rightarrow> 'w pintool" where
  "before_setup h tritonInst address sz ctx threadId g =
     foldl (lib h) (g\<lparr>lastContext := ctx\<rparr>)
       (before_setup_calls tritonInst address sz ctx threadId)"

text \<open>Lines 211 to 221: the hook before the IR processing and the context to execute.\<close>

definition before_ir :: "'w hooks \<Rightarrow> nat \<Rightarrow> 'w pintool \<Rightarrow> event list \<times> 'w pintool handover" where
  "before_ir h tritonInst g =
     (let (t, g1) =
            (if mustBeExecuted g = False
             then ([BeforeIRProc tritonInst], beforeIRProc h tritonInst g)
             else ([], g\<lparr>mustBeExecuted := False\<rparr>))
      in if mustBeExecuted g1 = True
         then (t @ [Reset tritonInst, ExecuteContext],
               executeContext h (lib h g1 (Reset tritonInst)))
         else (t, Back g1))"

text \<open>Lines 223 to 244: the semantics, the user hook, the snapshot, the post-processing.\<close>

definition before_post :: "'w hooks \<Rightarrow> nat \<Rightarrow> thread \<Rightarrow> 'w pintool \<Rightarrow> event list \<times> 'w pintool" where
  "before_post h tritonInst threadId g =
     ([PostProcessing tritonInst threadId, SetTrust tritonInst False],
      lib h (postProcessing h tritonInst threadId g) (SetTrust tritonInst False))"

definition before_finish ::
  "'w hooks \<Rightarrow> nat \<Rightarrow> nat \<Rightarrow> thread \<Rightarrow> 'w pintool \<Rightarrow> event list \<times> 'w pintool outcome" where
  "before_finish h tritonInst ctx threadId g =
     (let g1 = lib h g (BuildSemantics tritonInst);
          (t2, g2) =
            (if mustBeExecuted g1 = False
             then ([Before tritonInst], before h tritonInst g1)
             else ([], g1))
      in if snapshotMustBeRestored g2 = True
         then (case restoreSnapshot h ctx (lib h g2 (Reset tritonInst)) of
                 Away g3 \<Rightarrow>
                   (BuildSemantics tritonInst # t2 @ [Reset tritonInst, RestoreSnapshot ctx],
                    Resumed g3)
               | Back g3 \<Rightarrow>
                   (BuildSemantics tritonInst # t2 @ [Reset tritonInst, RestoreSnapshot ctx]
                      @ fst (before_post h tritonInst threadId g3),
                    Returned (snd (before_post h tritonInst threadId g3))))
         else (BuildSemantics tritonInst # t2 @ fst (before_post h tritonInst threadId g2),
               Returned (snd (before_post h tritonInst threadId g2))))"

definition callbackBefore ::
  "'w hooks \<Rightarrow> nat \<Rightarrow> addr \<Rightarrow> 32 word \<Rightarrow> nat \<Rightarrow> thread \<Rightarrow> 'w pintool
     \<Rightarrow> event list \<times> 'w pintool outcome" where
  "callbackBefore h tritonInst address sz ctx threadId g =
     (let g1 = preProcessing h tritonInst threadId g in
      if \<not> analysisTrigger g1 \<or> threadId \<noteq> targetThreadId g1
      then ([PreProcessing tritonInst threadId], Returned g1)
      else
        (let g2 = before_setup h tritonInst address sz ctx threadId g1;
             t2 = PreProcessing tritonInst threadId
                    # before_setup_calls tritonInst address sz ctx threadId
         in case before_ir h tritonInst g2 of
              (t3, Away g3) \<Rightarrow> (t2 @ t3, Resumed g3)
            | (t3, Back g3) \<Rightarrow>
                (t2 @ t3 @ fst (before_finish h tritonInst ctx threadId g3),
                 snd (before_finish h tritonInst ctx threadId g3))))"

subsection \<open>\<^verbatim>\<open>callbackSnapshot\<close>\<close>

text \<open>The loop \<^verbatim>\<open>for (uint32 i = 0; i < writeSize; i++)\<close>; \<^verbatim>\<open>mem+i\<close> is computed at the
  width of an address.\<close>

function snapshot_loop :: "addr \<Rightarrow> 32 word \<Rightarrow> 32 word \<Rightarrow> 'w pintool \<Rightarrow> event list \<times> 'w pintool" where
  "snapshot_loop mem writeSize i g =
     (if i < writeSize
      then (let b = memory g (mem + ucast i);
                r = snapshot_loop mem writeSize (i + 1) (addModification (mem + ucast i) b g)
            in (AddModification (mem + ucast i) b # fst r, snd r))
      else ([], g))"
  by pat_completeness auto
termination
proof (relation "measure (\<lambda>(mem, writeSize, i, g). unat writeSize - unat i)")
  show "wf (measure (\<lambda>(mem :: addr, writeSize :: 32 word, i :: 32 word, g :: 'w pintool).
              unat writeSize - unat i))"
    by simp
next
  fix mem :: addr and writeSize i :: "32 word" and g :: "'w pintool" and x :: byte
  assume "i < writeSize"
  then have "unat writeSize - unat (i + 1) < unat writeSize - unat i"
    by unat_arith
  then show "((mem, writeSize, i + 1, addModification (mem + ucast i) x g), mem, writeSize, i, g)
          \<in> measure (\<lambda>(mem, writeSize, i, g). unat writeSize - unat i)"
    by simp
qed

declare snapshot_loop.simps [simp del]

definition callbackSnapshot :: "addr \<Rightarrow> 32 word \<Rightarrow> 'w pintool \<Rightarrow> event list \<times> 'w pintool" where
  "callbackSnapshot mem writeSize g =
     (if \<not> analysisTrigger g then ([], g)
      else if snapshotLocked g then ([], g)
      else snapshot_loop mem writeSize 0 g)"

subsection \<open>\<^verbatim>\<open>callbackSignals\<close>\<close>

text \<open>\<^verbatim>\<open>exit(0)\<close> follows the hook; the \<^verbatim>\<open>return true\<close> behind it is never reached.\<close>

definition callbackSignals ::
  "'w hooks \<Rightarrow> thread \<Rightarrow> int \<Rightarrow> nat \<Rightarrow> 'w pintool \<Rightarrow> event list \<times> 'w pintool outcome" where
  "callbackSignals h threadId sig ctx g =
     (case signals h threadId sig (g\<lparr>lastContext := ctx\<rparr>) of
        None \<Rightarrow> ([Signals threadId sig], Diverted)
      | Some g1 \<Rightarrow> ([Signals threadId sig, Exit 0], Exited 0))"

subsection \<open>Instrumentation\<close>

text \<open>
  What the two instrumentation functions plant with \<^verbatim>\<open>RTN_InsertCall\<close> and
  \<^verbatim>\<open>INS_InsertCall\<close>: the place, and the analysis routine with the arguments that tell
  the calls apart. The \<^verbatim>\<open>PyObject*\<close> of a routine callback is a handle.
\<close>

datatype ipoint = IPOINT_BEFORE | IPOINT_AFTER | IPOINT_TAKEN_BRANCH

datatype iarg_ea = IARG_MEMORYREAD_EA | IARG_MEMORYREAD2_EA | IARG_MEMORYWRITE_EA

datatype iarg_size = IARG_MEMORYREAD_SIZE | IARG_MEMORYWRITE_SIZE

datatype analysis_call =
    Call_toggleWrapper bool
  | Call_callbackRoutineEntry nat
  | Call_callbackRoutineExit nat
  | Call_saveMemoryAccess iarg_ea iarg_size
  | Call_callbackBefore "32 word"
  | Call_callbackAfter
  | Call_callbackSnapshot "32 word"

record img =
  IMG_Valid :: bool
  IMG_Name :: string
  IMG_LowAddress :: addr
  IMG_HighAddress :: addr
  IMG_Entry :: addr
  IMG_Routines :: "string list"

text \<open>\<^verbatim>\<open>RTN_Valid(RTN_FindByName(img, name))\<close>: the image has a routine of that name.\<close>

definition RTN_FindByName_valid :: "img \<Rightarrow> string \<Rightarrow> bool" where
  "RTN_FindByName_valid im name = (name \<in> set (IMG_Routines im))"

definition callbackImageLoad :: "'w hooks \<Rightarrow> img \<Rightarrow> 'w pintool \<Rightarrow> event list \<times> 'w pintool" where
  "callbackImageLoad h im g =
     (let imagePath = IMG_Name im;
          imageBase = IMG_LowAddress im;
          imageSize = (IMG_HighAddress im + 1) - imageBase
      in ([ImageLoad imagePath imageBase imageSize],
          imageLoad h imagePath imageBase imageSize g))"

fun routine_loop ::
  "img \<Rightarrow> ipoint \<Rightarrow> (nat \<Rightarrow> analysis_call) \<Rightarrow> (string \<times> nat) list
     \<Rightarrow> (string \<times> ipoint \<times> analysis_call) list" where
  "routine_loop im ipt mk [] = []"
| "routine_loop im ipt mk (it # rest) =
     (if RTN_FindByName_valid im (fst it)
      then (fst it, ipt, mk (snd it)) # routine_loop im ipt mk rest
      else routine_loop im ipt mk rest)"

definition IMG_Instrumentation ::
  "'w hooks \<Rightarrow> img \<Rightarrow> 'w pintool
     \<Rightarrow> (string \<times> ipoint \<times> analysis_call) list \<times> event list \<times> 'w pintool" where
  "IMG_Instrumentation h im g =
     (let g1 = (if startAnalysisFromEntry g
                then (g\<lparr>startAnalysisFromEntry := False\<rparr>)
                       \<lparr>startAnalysisFromAddr := insert (IMG_Entry im) (startAnalysisFromAddr g)\<rparr>
                else g);
          c1 = (case startAnalysisFromSymbol g1 of
                  None \<Rightarrow> []
                | Some symb \<Rightarrow>
                    if RTN_FindByName_valid im symb
                    then [(symb, IPOINT_BEFORE, Call_toggleWrapper True),
                          (symb, IPOINT_AFTER, Call_toggleWrapper False)]
                    else []);
          c2 = routine_loop im IPOINT_BEFORE Call_callbackRoutineEntry (callbackRoutineEntry g1);
          c3 = routine_loop im IPOINT_AFTER Call_callbackRoutineExit (callbackRoutineExit g1)
      in if IMG_Valid im
         then (c1 @ c2 @ c3, callbackImageLoad h im g1)
         else (c1 @ c2 @ c3, [], g1))"

text \<open>Pin calls \<^verbatim>\<open>IMG_Instrumentation\<close> once for each image it loads, in load order.\<close>

fun image_loads :: "'w hooks \<Rightarrow> img list \<Rightarrow> 'w pintool \<Rightarrow> 'w pintool" where
  "image_loads h [] g = g"
| "image_loads h (im # rest) g =
     image_loads h rest (snd (snd (IMG_Instrumentation h im g)))"

record ins =
  INS_Address :: addr
  INS_Size :: "32 word"
  INS_IsMemoryRead :: bool
  INS_HasMemoryRead2 :: bool
  INS_IsMemoryWrite :: bool
  INS_IsSyscall :: bool
  INS_HasFallThrough :: bool
  INS_OperandCount :: "32 word"
  INS_MemoryOperandIsWritten0 :: bool
  INS_MemoryWriteSize :: "32 word"

text \<open>Lines 580 to 635: the calls planted on one instruction that passed the gates. Each
  instruction gets an Instruction object of its own, shared by its calls.\<close>

definition instrument_calls :: "ins \<Rightarrow> (addr \<times> ipoint \<times> analysis_call) list" where
  "instrument_calls i =
     (if INS_IsMemoryRead i
      then [(INS_Address i, IPOINT_BEFORE,
             Call_saveMemoryAccess IARG_MEMORYREAD_EA IARG_MEMORYREAD_SIZE)] else [])
     @ (if INS_HasMemoryRead2 i
        then [(INS_Address i, IPOINT_BEFORE,
               Call_saveMemoryAccess IARG_MEMORYREAD2_EA IARG_MEMORYREAD_SIZE)] else [])
     @ (if INS_IsMemoryWrite i
        then [(INS_Address i, IPOINT_BEFORE,
               Call_saveMemoryAccess IARG_MEMORYWRITE_EA IARG_MEMORYWRITE_SIZE)] else [])
     @ [(INS_Address i, IPOINT_BEFORE, Call_callbackBefore (INS_Size i))]
     @ (if INS_IsSyscall i = False
        then [(INS_Address i,
               (if INS_HasFallThrough i = False then IPOINT_TAKEN_BRANCH else IPOINT_AFTER),
               Call_callbackAfter)] else [])
     @ (if 1 < INS_OperandCount i \<and> INS_MemoryOperandIsWritten0 i
        then [(INS_Address i, IPOINT_BEFORE, Call_callbackSnapshot (INS_MemoryWriteSize i))]
        else [])"

text \<open>The inner loop over the instructions of a basic block, with its two
  \<^verbatim>\<open>continue\<close>s, and the outer loop over the blocks of the trace.\<close>

fun ins_loop ::
  "pin \<Rightarrow> ins list \<Rightarrow> 'w pintool \<Rightarrow> (addr \<times> ipoint \<times> analysis_call) list \<times> 'w pintool" where
  "ins_loop p [] g = ([], g)"
| "ins_loop p (i # rest) g =
     (let g1 = snd (checkUnlockAnalysis p (INS_Address i) g) in
      if \<not> analysisTrigger g1 then ins_loop p rest g1
      else if instructionBlacklisted p (INS_Address i) g1 = True
              \<or> instructionWhitelisted p (INS_Address i) g1 = False
        then ins_loop p rest g1
      else (instrument_calls i @ fst (ins_loop p rest g1), snd (ins_loop p rest g1)))"

fun bbl_loop ::
  "pin \<Rightarrow> ins list list \<Rightarrow> 'w pintool \<Rightarrow> (addr \<times> ipoint \<times> analysis_call) list \<times> 'w pintool" where
  "bbl_loop p [] g = ([], g)"
| "bbl_loop p (bbl # rest) g =
     (let r = ins_loop p bbl g
      in (fst r @ fst (bbl_loop p rest (snd r)), snd (bbl_loop p rest (snd r))))"

definition TRACE_Instrumentation ::
  "pin \<Rightarrow> ins list list \<Rightarrow> 'w pintool \<Rightarrow> (addr \<times> ipoint \<times> analysis_call) list \<times> 'w pintool" where
  "TRACE_Instrumentation p trace g = bbl_loop p trace g"

subsection \<open>Concrete configurations\<close>

text \<open>
  A session that waits for address \<open>0x4000\<close> or for offset \<open>0x10\<close> in any image, with a
  blacklist and a whitelist; the same session once thread 3 has unlocked the analysis; a
  process with one executable below \<open>0x400000\<close> and a C library above it.
\<close>

definition example_state :: "unit pintool" where
  "example_state =
     \<lparr>analysisTrigger = False, targetThreadId = - 1, startAnalysisFromEntry = False,
      startAnalysisFromSymbol = None, startAnalysisFromAddr = {0x4000},
      startAnalysisFromOffset = {0x10}, imageBlacklist = [''libc''], imageWhitelist = [''lib''],
      callbackRoutineEntry = [], callbackRoutineExit = [], mustBeExecuted = False,
      lastContext = 0, snapshotLocked = True, snapshotMustBeRestored = False,
      snapshotMemory = Map.empty, memory = (\<lambda>a. ucast a), world = ()\<rparr>"

definition running_state :: "unit pintool" where
  "running_state = example_state\<lparr>analysisTrigger := True, targetThreadId := 3\<rparr>"

definition example_pin :: pin where
  "example_pin =
     \<lparr>PIN_ThreadId = 3, RTN_FindNameByAddress = (\<lambda>a. ''main''),
      getImageName = (\<lambda>a. if a < 0x400000 then ''/bin/target'' else ''/lib/libc.so''),
      getBaseAddress = (\<lambda>a. if a < 0x400000 then 0 else 0x400000)\<rparr>"

text \<open>Hooks of a script that registers nothing, and of one whose hook before the IR
  processing asks for a new context.\<close>

definition quiet_hooks :: "unit hooks" where
  "quiet_hooks =
     \<lparr>preProcessing = (\<lambda>i t g. g), beforeIRProc = (\<lambda>i g. g), before = (\<lambda>i g. g),
      postProcessing = (\<lambda>i t g. g), imageLoad = (\<lambda>path base sz g. g),
      signals = (\<lambda>t s g. Some g), executeContext = executeContext_spec (\<lambda>w. w),
      restoreSnapshot = (\<lambda>c g. Away (g\<lparr>snapshotMustBeRestored := False\<rparr>)),
      libTriton = (\<lambda>e w. w)\<rparr>"

definition override_hooks :: "unit hooks" where
  "override_hooks = quiet_hooks\<lparr>beforeIRProc := (\<lambda>i g. g\<lparr>mustBeExecuted := True\<rparr>)\<rparr>"

text \<open>Two images in load order, and an instruction of the second one at offset
  \<open>0x10\<close>.\<close>

definition example_images :: "img list" where
  "example_images =
     [\<lparr>IMG_Valid = True, IMG_Name = ''/bin/target'', IMG_LowAddress = 0x1000,
       IMG_HighAddress = 0x3fffff, IMG_Entry = 0x2000, IMG_Routines = [''main'']\<rparr>,
      \<lparr>IMG_Valid = True, IMG_Name = ''/lib/libc.so'', IMG_LowAddress = 0x400000,
       IMG_HighAddress = 0x4fffff, IMG_Entry = 0x400800, IMG_Routines = [''printf'']\<rparr>]"

definition example_ins :: ins where
  "example_ins =
     \<lparr>INS_Address = 0x400010, INS_Size = 2, INS_IsMemoryRead = False,
      INS_HasMemoryRead2 = False, INS_IsMemoryWrite = False, INS_IsSyscall = False,
      INS_HasFallThrough = True, INS_OperandCount = 2, INS_MemoryOperandIsWritten0 = False,
      INS_MemoryWriteSize = 0\<rparr>"

section \<open>Properties\<close>

lemma strstr_sublist: "strstr haystack needle \<longleftrightarrow> sublist needle haystack"
  by (induction haystack) (simp_all add: sublist_Cons_right)

lemma blacklist_loop_iff: "blacklist_loop name bl \<longleftrightarrow> (\<exists>b \<in> set bl. sublist b name)"
  by (induction bl) (simp_all add: strstr_sublist)

lemma whitelist_loop_iff: "whitelist_loop name wl \<longleftrightarrow> (\<exists>w \<in> set wl. sublist w name)"
  by (induction wl) (simp_all add: strstr_sublist)

subsection \<open>Helper facts\<close>

lemma lib_fields [simp]:
  "analysisTrigger (lib h g e) = analysisTrigger g"
  "targetThreadId (lib h g e) = targetThreadId g"
  "mustBeExecuted (lib h g e) = mustBeExecuted g"
  "snapshotMustBeRestored (lib h g e) = snapshotMustBeRestored g"
  "lastContext (lib h g e) = lastContext g"
  by (simp_all add: lib_def)

lemma foldl_lib_fields [simp]:
  "mustBeExecuted (foldl (lib h) g es) = mustBeExecuted g"
  "analysisTrigger (foldl (lib h) g es) = analysisTrigger g"
  "targetThreadId (foldl (lib h) g es) = targetThreadId g"
  by (induction es arbitrary: g) simp_all

lemma before_setup_mustBeExecuted [simp]:
  "mustBeExecuted (before_setup h i a sz ctx t g) = mustBeExecuted g"
  by (simp add: before_setup_def)

lemma notin_before_setup_calls [simp]:
  "ExecuteContext \<notin> set (before_setup_calls i a sz ctx t)"
  "BeforeIRProc j \<notin> set (before_setup_calls i a sz ctx t)"
  "BuildSemantics j \<notin> set (before_setup_calls i a sz ctx t)"
  by (simp_all add: before_setup_calls_def)

lemma notin_before_finish [simp]:
  "ExecuteContext \<notin> set (fst (before_finish h i ctx t g))"
  "BeforeIRProc j \<notin> set (fst (before_finish h i ctx t g))"
  by (simp_all add: before_finish_def before_post_def Let_def split: handover.splits prod.splits)

lemma BuildSemantics_in_before_finish [simp]:
  "BuildSemantics i \<in> set (fst (before_finish h i ctx t g))"
  by (simp add: before_finish_def before_post_def Let_def split: handover.splits prod.splits)

subsection \<open>The before-execution sequence\<close>

text \<open>
  C1, as the code has it. With the gate open, \<^verbatim>\<open>executeContext\<close> is called in a run of
  \<^verbatim>\<open>callbackBefore\<close> exactly when no context was pending on reaching the hook before the IR
  processing and that hook itself set the flag; the call then follows the hook and a reset
  of the Instruction at once. A context that is already pending at that point is not
  executed in this run: the hook is skipped, the flag is cleared, and the run goes on
  with the semantics from there.
\<close>

theorem override_applied_by_hook:
  assumes "analysisTrigger (preProcessing h i t g)"
      and "t = targetThreadId (preProcessing h i t g)"
  shows "(ExecuteContext \<in> set (fst (callbackBefore h i a sz ctx t g))
           \<longleftrightarrow> \<not> mustBeExecuted (preProcessing h i t g)
               \<and> mustBeExecuted (beforeIRProc h i
                    (before_setup h i a sz ctx t (preProcessing h i t g))))
       \<and> (\<not> mustBeExecuted (preProcessing h i t g)
            \<and> mustBeExecuted (beforeIRProc h i
                 (before_setup h i a sz ctx t (preProcessing h i t g)))
          \<longrightarrow> (\<exists>rest. fst (callbackBefore h i a sz ctx t g)
                 = PreProcessing i t # before_setup_calls i a sz ctx t
                   @ [BeforeIRProc i, Reset i, ExecuteContext] @ rest))
       \<and> (mustBeExecuted (preProcessing h i t g)
          \<longrightarrow> BeforeIRProc i \<notin> set (fst (callbackBefore h i a sz ctx t g))
              \<and> callbackBefore h i a sz ctx t g
                  = (PreProcessing i t # before_setup_calls i a sz ctx t
                       @ fst (before_finish h i ctx t
                           ((before_setup h i a sz ctx t (preProcessing h i t g))
                              \<lparr>mustBeExecuted := False\<rparr>)),
                     snd (before_finish h i ctx t
                           ((before_setup h i a sz ctx t (preProcessing h i t g))
                              \<lparr>mustBeExecuted := False\<rparr>))))"
  using assms
  by (auto simp add: callbackBefore_def before_ir_def Let_def
        split: prod.splits handover.splits if_splits)

theorem override_applied_by_hook_witness:
  "analysisTrigger (preProcessing override_hooks 7 3 running_state)
   \<and> 3 = targetThreadId (preProcessing override_hooks 7 3 running_state)
   \<and> \<not> mustBeExecuted (preProcessing override_hooks 7 3 running_state)
   \<and> mustBeExecuted (beforeIRProc override_hooks 7
        (before_setup override_hooks 7 0x4004 2 1 3 (preProcessing override_hooks 7 3 running_state)))
   \<and> ExecuteContext \<in> set (fst (callbackBefore override_hooks 7 0x4004 2 1 3 running_state))
   \<and> mustBeExecuted (preProcessing quiet_hooks 7 3 (running_state\<lparr>mustBeExecuted := True\<rparr>))
   \<and> ExecuteContext
        \<notin> set (fst (callbackBefore quiet_hooks 7 0x4004 2 1 3
                      (running_state\<lparr>mustBeExecuted := True\<rparr>)))
   \<and> BeforeIRProc 7
        \<notin> set (fst (callbackBefore quiet_hooks 7 0x4004 2 1 3
                      (running_state\<lparr>mustBeExecuted := True\<rparr>)))"
  using override_applied_by_hook [of override_hooks 7 3 running_state "0x4004" 2 1]
        override_applied_by_hook [of quiet_hooks 7 3 "running_state\<lparr>mustBeExecuted := True\<rparr>"
                                     "0x4004" 2 1]
  by (simp add: before_setup_def before_setup_calls_def lib_def quiet_hooks_def
        override_hooks_def running_state_def example_state_def)

text \<open>
  C1, as the specification words it, fails for the context that is already pending: thread
  3 is the target thread, the trigger is on, the flag is set when the callback starts, no
  hook touches it, and the run neither resets the Instruction before the semantics nor
  calls \<^verbatim>\<open>executeContext\<close>.
\<close>

theorem pending_override_counterexample:
  "analysisTrigger (running_state\<lparr>mustBeExecuted := True\<rparr>)
   \<and> targetThreadId (running_state\<lparr>mustBeExecuted := True\<rparr>) = 3
   \<and> mustBeExecuted (before_setup quiet_hooks 7 0x4004 2 1 3
        (preProcessing quiet_hooks 7 3 (running_state\<lparr>mustBeExecuted := True\<rparr>)))
   \<and> fst (callbackBefore quiet_hooks 7 0x4004 2 1 3 (running_state\<lparr>mustBeExecuted := True\<rparr>))
       = [PreProcessing 7 3, PartialReset 7, SetOpcodes 7 0x4004 2, SetAddress 7 0x4004,
          SetThreadId 7 3, SetupContextRegister 7 1, Disassembly 7, SetTrust 7 True,
          BuildSemantics 7, Before 7, PostProcessing 7 3, SetTrust 7 False]"
  by (simp add: callbackBefore_def before_setup_def before_setup_calls_def before_ir_def
        before_finish_def before_post_def lib_def quiet_hooks_def running_state_def
        example_state_def Let_def)

text \<open>
  \<^verbatim>\<open>callbackBefore\<close> has no branch around \<^verbatim>\<open>buildSemantics\<close>: once \<^verbatim>\<open>executeContext\<close> has
  been called, the semantics of the same run are built exactly when that call comes back.
\<close>

lemma semantics_iff_executeContext_back:
  assumes "ExecuteContext \<in> set (fst (callbackBefore h i a sz ctx t g))"
  shows "BuildSemantics i \<in> set (fst (callbackBefore h i a sz ctx t g))
         \<longleftrightarrow> (\<exists>g'. executeContext h
               (lib h (beforeIRProc h i (before_setup h i a sz ctx t (preProcessing h i t g)))
                  (Reset i)) = Back g')"
  using assms
  by (auto simp add: callbackBefore_def before_ir_def Let_def
        split: prod.splits handover.splits if_splits)

text \<open>
  C2. Take any hooks, with \<^verbatim>\<open>executeContext\<close> as the specification describes it. In a
  run of \<^verbatim>\<open>callbackBefore\<close> that calls \<^verbatim>\<open>executeContext\<close>, no semantics are built, for no
  Instruction: the call is the last thing the run does, right after the hook before the
  IR processing and the reset of the Instruction, and the thread is resumed with the
  must-execute flag cleared.
\<close>

theorem override_short_circuits_semantics:
  "ExecuteContext
     \<in> set (fst (callbackBefore (h\<lparr>executeContext := executeContext_spec q\<rparr>) i a sz ctx t g))
   \<longrightarrow> BuildSemantics j
         \<notin> set (fst (callbackBefore (h\<lparr>executeContext := executeContext_spec q\<rparr>) i a sz ctx t g))
       \<and> fst (callbackBefore (h\<lparr>executeContext := executeContext_spec q\<rparr>) i a sz ctx t g)
           = PreProcessing i t # before_setup_calls i a sz ctx t
             @ [BeforeIRProc i, Reset i, ExecuteContext]
       \<and> (\<exists>g'. snd (callbackBefore (h\<lparr>executeContext := executeContext_spec q\<rparr>) i a sz ctx t g)
                  = Resumed g'
                \<and> \<not> mustBeExecuted g')"
  by (auto simp add: callbackBefore_def before_ir_def executeContext_spec_def Let_def
        before_setup_calls_def split: prod.splits handover.splits if_splits)

theorem override_short_circuits_semantics_witness:
  "ExecuteContext
     \<in> set (fst (callbackBefore (override_hooks\<lparr>executeContext := executeContext_spec (\<lambda>w. w)\<rparr>)
                   7 0x4004 2 1 3 running_state))
   \<and> callbackBefore (override_hooks\<lparr>executeContext := executeContext_spec (\<lambda>w. w)\<rparr>)
        7 0x4004 2 1 3 running_state
       = ([PreProcessing 7 3, PartialReset 7, SetOpcodes 7 0x4004 2, SetAddress 7 0x4004,
           SetThreadId 7 3, SetupContextRegister 7 1, Disassembly 7, SetTrust 7 True,
           BeforeIRProc 7, Reset 7, ExecuteContext],
          Resumed (running_state\<lparr>lastContext := 1\<rparr>))"
  using override_short_circuits_semantics
          [where h = override_hooks and q = "\<lambda>w. w" and i = 7 and a = "0x4004" and sz = 2
             and ctx = 1 and t = 3 and g = running_state and j = 7]
  by (simp add: callbackBefore_def before_setup_def before_setup_calls_def before_ir_def
        lib_def quiet_hooks_def override_hooks_def running_state_def example_state_def
        executeContext_spec_def Let_def)

text \<open>
  C4. The pre-processing hook is the first call of every run of \<^verbatim>\<open>callbackBefore\<close>,
  whatever the trigger says. If, when the hook has returned, the trigger is off or the
  calling thread is not the target thread, the run is over: the hook is its only call, and
  the state is the one the hook left (no context reference, no Instruction set up, no
  disassembly, no semantics, no other hook).
\<close>

theorem callbackBefore_gate:
  "(\<exists>rest. fst (callbackBefore h i a sz ctx t g) = PreProcessing i t # rest)
   \<and> (\<not> analysisTrigger (preProcessing h i t g) \<or> t \<noteq> targetThreadId (preProcessing h i t g)
        \<longrightarrow> callbackBefore h i a sz ctx t g
              = ([PreProcessing i t], Returned (preProcessing h i t g)))"
  by (simp add: callbackBefore_def Let_def split: prod.splits handover.splits)

theorem callbackBefore_gate_witness:
  "\<not> analysisTrigger (preProcessing quiet_hooks 7 3 example_state)
   \<and> callbackBefore quiet_hooks 7 0x4004 2 1 3 example_state
       = ([PreProcessing 7 3], Returned example_state)
   \<and> 5 \<noteq> targetThreadId (preProcessing quiet_hooks 7 5 running_state)
   \<and> callbackBefore quiet_hooks 7 0x4004 2 1 5 running_state
       = ([PreProcessing 7 5], Returned running_state)"
  using callbackBefore_gate [of quiet_hooks 7 "0x4004" 2 1 3 example_state]
        callbackBefore_gate [of quiet_hooks 7 "0x4004" 2 1 5 running_state]
  by (simp add: quiet_hooks_def example_state_def running_state_def)

subsection \<open>The range selector\<close>

text \<open>
  C3. Once the target thread is set (it is not \<open>-1\<close>), \<^verbatim>\<open>checkUnlockAnalysis\<close> returns
  false and leaves the whole state as it is, target thread and trigger included, for every
  address, also one that a configured start condition accepts.
\<close>

theorem checkUnlockAnalysis_one_shot:
  "targetThreadId g \<noteq> - 1 \<Longrightarrow> checkUnlockAnalysis p address g = (False, g)"
  by (simp add: checkUnlockAnalysis_def)

theorem checkUnlockAnalysis_one_shot_witness:
  "targetThreadId (example_state\<lparr>targetThreadId := 3\<rparr>) \<noteq> - 1
   \<and> 0x4000 \<in> startAnalysisFromAddr (example_state\<lparr>targetThreadId := 3\<rparr>)
   \<and> checkUnlockAnalysis example_pin 0x4000 (example_state\<lparr>targetThreadId := 3\<rparr>)
       = (False, example_state\<lparr>targetThreadId := 3\<rparr>)"
  using checkUnlockAnalysis_one_shot [of "example_state\<lparr>targetThreadId := 3\<rparr>" example_pin "0x4000"]
  by (simp add: example_state_def)

text \<open>
  C5. With no target thread and no start symbol, \<^verbatim>\<open>checkUnlockAnalysis\<close> returns true
  exactly when the address is in the set of start addresses or else its offset in its image
  is in the set of start offsets; then the target thread is the calling thread and the
  trigger is on, and otherwise nothing has changed.
\<close>

theorem checkUnlockAnalysis_address_offset:
  assumes "targetThreadId g = - 1" and "startAnalysisFromSymbol g = None"
  shows "checkUnlockAnalysis p address g =
           (if address \<in> startAnalysisFromAddr g
               \<or> getInsOffset p address \<in> startAnalysisFromOffset g
            then (True, g\<lparr>targetThreadId := PIN_ThreadId p, analysisTrigger := True\<rparr>)
            else (False, g))"
  using assms by (simp add: checkUnlockAnalysis_def toggleWrapper_def)

theorem checkUnlockAnalysis_address_offset_witness:
  "targetThreadId example_state = - 1 \<and> startAnalysisFromSymbol example_state = None
   \<and> checkUnlockAnalysis example_pin 0x4000 example_state
       = (True, example_state\<lparr>targetThreadId := 3, analysisTrigger := True\<rparr>)
   \<and> checkUnlockAnalysis example_pin 0x400010 example_state
       = (True, example_state\<lparr>targetThreadId := 3, analysisTrigger := True\<rparr>)
   \<and> checkUnlockAnalysis example_pin 0x4004 example_state = (False, example_state)"
  using checkUnlockAnalysis_address_offset [of example_state example_pin "0x4000"]
        checkUnlockAnalysis_address_offset [of example_state example_pin "0x400010"]
        checkUnlockAnalysis_address_offset [of example_state example_pin "0x4004"]
  by (simp add: example_state_def example_pin_def getInsOffset_def)

subsection \<open>The image filter\<close>

text \<open>
  C6. An instruction is left out when the path of its image contains an entry of the
  blacklist, whatever the whitelist says; otherwise it is kept exactly when the whitelist
  is empty or the path contains one of its entries.
\<close>

theorem filterImage_blacklist_whitelist:
  "filterImage p address g =
     (if \<exists>b \<in> set (imageBlacklist g). sublist b (getImageName p address) then False
      else imageWhitelist g = []
           \<or> (\<exists>w \<in> set (imageWhitelist g). sublist w (getImageName p address)))"
  by (simp add: filterImage_def instructionBlacklisted_def instructionWhitelisted_def
        blacklist_loop_iff whitelist_loop_iff)

theorem filterImage_blacklist_whitelist_witness:
  "sublist ''libc'' (getImageName example_pin 0x400010)
   \<and> sublist ''lib'' (getImageName example_pin 0x400010)
   \<and> \<not> filterImage example_pin 0x400010 example_state
   \<and> \<not> filterImage example_pin 0x4000 example_state
   \<and> filterImage example_pin 0x4000 (example_state\<lparr>imageWhitelist := []\<rparr>)
   \<and> filterImage example_pin 0x400010 (example_state\<lparr>imageBlacklist := []\<rparr>)"
  using filterImage_blacklist_whitelist [of example_pin "0x400010" example_state]
        filterImage_blacklist_whitelist [of example_pin "0x4000" example_state]
        filterImage_blacklist_whitelist [of example_pin "0x4000" "example_state\<lparr>imageWhitelist := []\<rparr>"]
        filterImage_blacklist_whitelist [of example_pin "0x400010" "example_state\<lparr>imageBlacklist := []\<rparr>"]
  by (simp add: example_state_def example_pin_def flip: strstr_sublist)

subsection \<open>Signals\<close>

text \<open>
  C9. \<^verbatim>\<open>callbackSignals\<close> reads neither the trigger nor the target thread: the signals hook
  is its first call for every state, thread and signal, and when the hook comes back the
  process exits with status 0.
\<close>

theorem callbackSignals_always_forwarded:
  "(\<exists>rest. fst (callbackSignals h t sg ctx g) = Signals t sg # rest)
   \<and> (signals h t sg (g\<lparr>lastContext := ctx\<rparr>) \<noteq> None
        \<longrightarrow> callbackSignals h t sg ctx g = ([Signals t sg, Exit 0], Exited 0))"
  by (simp add: callbackSignals_def split: option.splits)

theorem callbackSignals_always_forwarded_witness:
  "\<not> analysisTrigger example_state \<and> targetThreadId example_state \<noteq> 5
   \<and> signals quiet_hooks 5 11 (example_state\<lparr>lastContext := 1\<rparr>) \<noteq> None
   \<and> callbackSignals quiet_hooks 5 11 1 example_state = ([Signals 5 11, Exit 0], Exited 0)"
  using callbackSignals_always_forwarded [of quiet_hooks 5 11 1 example_state]
  by (simp add: quiet_hooks_def example_state_def)

subsection \<open>Image loads\<close>

text \<open>
  C7. While the analysis is asked to start at the entry point, a call of
  \<^verbatim>\<open>IMG_Instrumentation\<close> withdraws the request and adds the entry address of its image
  to the set of start addresses, once; this is the state its image-load hook receives.
  With the request withdrawn, a call of \<^verbatim>\<open>IMG_Instrumentation\<close> hands the state to the
  hook as it got it: it adds no entry address. So of the images loaded one after the
  other, the first one alone has its entry address added by the instrumentation.
\<close>

theorem entry_point_registered_once:
  "(startAnalysisFromEntry g \<longrightarrow>
      snd (snd (IMG_Instrumentation h im g))
        = (if IMG_Valid im
           then imageLoad h (IMG_Name im) (IMG_LowAddress im)
                  (IMG_HighAddress im + 1 - IMG_LowAddress im)
                  (g\<lparr>startAnalysisFromEntry := False,
                     startAnalysisFromAddr := insert (IMG_Entry im) (startAnalysisFromAddr g)\<rparr>)
           else g\<lparr>startAnalysisFromEntry := False,
                  startAnalysisFromAddr := insert (IMG_Entry im) (startAnalysisFromAddr g)\<rparr>))
   \<and> (\<not> startAnalysisFromEntry g \<longrightarrow>
      snd (snd (IMG_Instrumentation h im g))
        = (if IMG_Valid im
           then imageLoad h (IMG_Name im) (IMG_LowAddress im)
                  (IMG_HighAddress im + 1 - IMG_LowAddress im) g
           else g))"
  by (simp add: IMG_Instrumentation_def callbackImageLoad_def Let_def)

theorem entry_point_registered_once_witness:
  "startAnalysisFromEntry (example_state\<lparr>startAnalysisFromEntry := True\<rparr>)
   \<and> snd (snd (IMG_Instrumentation quiet_hooks (example_images ! 0)
                 (example_state\<lparr>startAnalysisFromEntry := True\<rparr>)))
       = example_state\<lparr>startAnalysisFromAddr := {0x2000, 0x4000}\<rparr>
   \<and> \<not> startAnalysisFromEntry (example_state\<lparr>startAnalysisFromAddr := {0x2000, 0x4000}\<rparr>)
   \<and> snd (snd (IMG_Instrumentation quiet_hooks (example_images ! 1)
                 (example_state\<lparr>startAnalysisFromAddr := {0x2000, 0x4000}\<rparr>)))
       = example_state\<lparr>startAnalysisFromAddr := {0x2000, 0x4000}\<rparr>
   \<and> image_loads quiet_hooks example_images (example_state\<lparr>startAnalysisFromEntry := True\<rparr>)
       = example_state\<lparr>startAnalysisFromAddr := {0x2000, 0x4000}\<rparr>"
  using entry_point_registered_once
          [of "example_state\<lparr>startAnalysisFromEntry := True\<rparr>" quiet_hooks "example_images ! 0"]
        entry_point_registered_once
          [of "example_state\<lparr>startAnalysisFromAddr := {0x2000, 0x4000}\<rparr>" quiet_hooks
              "example_images ! 1"]
  by (simp add: example_images_def example_state_def quiet_hooks_def)

subsection \<open>Snapshot capture\<close>

lemma addModification_memory [simp]: "memory (addModification a b g) = memory g"
  by (simp add: addModification_def split: option.splits)


lemma snapshot_loop_trace:
  "i \<le> writeSize \<Longrightarrow>
   fst (snapshot_loop mem writeSize i g)
     = map (\<lambda>k. AddModification (mem + of_nat k) (memory g (mem + of_nat k)))
         [unat i..<unat writeSize]"
proof (induction mem writeSize i g rule: snapshot_loop.induct)
  case (1 mem writeSize i g)
  show ?case
  proof (cases "i < writeSize")
    case True
    then have le: "i + 1 \<le> writeSize" by (rule inc_le)
    from True have suc: "unat (i + 1) = Suc (unat i)" by unat_arith
    from True have lt: "unat i < unat writeSize" by (simp add: word_less_nat_alt)
    have "fst (snapshot_loop mem writeSize (i + 1)
                 (addModification (mem + ucast i) (memory g (mem + ucast i)) g))
            = map (\<lambda>k. AddModification (mem + of_nat k) (memory g (mem + of_nat k)))
                [Suc (unat i)..<unat writeSize]"
      using "1.IH" [OF True refl le] by (simp add: suc)
    with True lt show ?thesis
      by (subst snapshot_loop.simps) (simp add: Let_def upt_conv_Cons)
  next
    case False
    with "1.prems" have "i = writeSize" by simp
    then show ?thesis by (subst snapshot_loop.simps) simp
  qed
qed

lemma addModification_targetThreadId:
  "addModification a b (g\<lparr>targetThreadId := t\<rparr>) = (addModification a b g)\<lparr>targetThreadId := t\<rparr>"
  by (simp add: addModification_def split: option.splits)

lemma snapshot_loop_targetThreadId:
  "snapshot_loop mem writeSize i (g\<lparr>targetThreadId := t\<rparr>)
     = (fst (snapshot_loop mem writeSize i g),
        (snd (snapshot_loop mem writeSize i g))\<lparr>targetThreadId := t\<rparr>)"
proof (induction mem writeSize i g rule: snapshot_loop.induct)
  case (1 mem writeSize i g)
  show ?case
  proof (cases "i < writeSize")
    case True
    show ?thesis
      using True "1.IH" [OF True refl]
      by (subst (1 2 3) snapshot_loop.simps)
         (simp add: Let_def addModification_targetThreadId)
  next
    case False
    then show ?thesis by (subst (1 2 3) snapshot_loop.simps) simp
  qed
qed

text \<open>
  C8. For a write of \<open>writeSize\<close> bytes at \<open>mem\<close>, \<^verbatim>\<open>callbackSnapshot\<close> hands to
  \<^verbatim>\<open>addModification\<close> the addresses \<open>mem\<close>, \<open>mem + 1\<close>, ... in this order, each with
  the byte it holds, when the trigger is on and the snapshot is unlocked; otherwise it
  makes no call and changes nothing. The callback takes no thread id, and the target
  thread has no influence on what it does.
\<close>

theorem callbackSnapshot_records:
  "fst (callbackSnapshot mem writeSize g)
     = (if analysisTrigger g \<and> \<not> snapshotLocked g
        then map (\<lambda>k. AddModification (mem + of_nat k) (memory g (mem + of_nat k)))
               [0..<unat writeSize]
        else [])
   \<and> (\<not> analysisTrigger g \<or> snapshotLocked g \<longrightarrow> snd (callbackSnapshot mem writeSize g) = g)
   \<and> callbackSnapshot mem writeSize (g\<lparr>targetThreadId := t\<rparr>)
       = (fst (callbackSnapshot mem writeSize g),
          (snd (callbackSnapshot mem writeSize g))\<lparr>targetThreadId := t\<rparr>)"
proof -
  have "fst (snapshot_loop mem writeSize 0 g)
          = map (\<lambda>k. AddModification (mem + of_nat k) (memory g (mem + of_nat k)))
              [0..<unat writeSize]"
    using snapshot_loop_trace [of 0 writeSize mem g] by simp
  moreover have "snapshot_loop mem writeSize i (g\<lparr>targetThreadId := t\<rparr>)
          = (fst (snapshot_loop mem writeSize i g),
             (snd (snapshot_loop mem writeSize i g))\<lparr>targetThreadId := t\<rparr>)" for i
    by (rule snapshot_loop_targetThreadId)
  ultimately show ?thesis
    by (simp add: callbackSnapshot_def)
qed

theorem callbackSnapshot_records_witness:
  "callbackSnapshot 0x20 4 (running_state\<lparr>snapshotLocked := False\<rparr>)
     = ([AddModification 0x20 0x20, AddModification 0x21 0x21,
         AddModification 0x22 0x22, AddModification 0x23 0x23],
        running_state\<lparr>snapshotLocked := False,
          snapshotMemory := [0x20 \<mapsto> 0x20, 0x21 \<mapsto> 0x21, 0x22 \<mapsto> 0x22, 0x23 \<mapsto> 0x23]\<rparr>)
   \<and> callbackSnapshot 0x20 4 running_state = ([], running_state)
   \<and> callbackSnapshot 0x20 4 (example_state\<lparr>snapshotLocked := False\<rparr>)
       = ([], example_state\<lparr>snapshotLocked := False\<rparr>)"
  using callbackSnapshot_records [of "0x20" 4 "running_state\<lparr>snapshotLocked := False\<rparr>" 3]
        callbackSnapshot_records [of "0x20" 4 running_state 3]
        callbackSnapshot_records [of "0x20" 4 "example_state\<lparr>snapshotLocked := False\<rparr>" 3]
  by (simp add: callbackSnapshot_def snapshot_loop.simps addModification_def Let_def
        running_state_def example_state_def)

subsection \<open>Trace instrumentation\<close>

lemma ins_loop_state:
  "snd (ins_loop p is g)
     = foldl (\<lambda>g a. snd (checkUnlockAnalysis p a g)) g (map INS_Address is)"
  by (induction "is" arbitrary: g) (simp_all add: Let_def)

lemma bbl_loop_state:
  "snd (bbl_loop p bbls g)
     = foldl (\<lambda>g a. snd (checkUnlockAnalysis p a g)) g (map INS_Address (concat bbls))"
  by (induction bbls arbitrary: g) (simp_all add: Let_def ins_loop_state)

text \<open>
  C10. The state that \<^verbatim>\<open>TRACE_Instrumentation\<close> leaves is the one that
  \<^verbatim>\<open>checkUnlockAnalysis\<close> alone produces when it is run on every instruction address of
  the trace in order: the filter has no part in it. For an instruction whose address
  unlocks the analysis, the target thread and the trigger are set whether or not the
  image filter keeps the instruction; the filter decides only whether calls are planted.
\<close>

theorem unlock_before_filter:
  "snd (TRACE_Instrumentation p trace g)
     = foldl (\<lambda>g a. snd (checkUnlockAnalysis p a g)) g (map INS_Address (concat trace))
   \<and> (fst (checkUnlockAnalysis p (INS_Address i) g) \<and> \<not> filterImage p (INS_Address i) g
        \<longrightarrow> TRACE_Instrumentation p [[i]] g
              = ([], g\<lparr>targetThreadId := PIN_ThreadId p, analysisTrigger := True\<rparr>))
   \<and> (fst (checkUnlockAnalysis p (INS_Address i) g) \<and> filterImage p (INS_Address i) g
        \<longrightarrow> TRACE_Instrumentation p [[i]] g
              = (instrument_calls i, g\<lparr>targetThreadId := PIN_ThreadId p, analysisTrigger := True\<rparr>))"
  by (auto simp add: TRACE_Instrumentation_def bbl_loop_state Let_def checkUnlockAnalysis_def
        toggleWrapper_def filterImage_def instructionBlacklisted_def instructionWhitelisted_def
        split: if_splits)

theorem unlock_before_filter_witness:
  "fst (checkUnlockAnalysis example_pin (INS_Address example_ins) example_state)
   \<and> \<not> filterImage example_pin (INS_Address example_ins) example_state
   \<and> TRACE_Instrumentation example_pin [[example_ins]] example_state
       = ([], example_state\<lparr>targetThreadId := 3, analysisTrigger := True\<rparr>)
   \<and> filterImage example_pin (INS_Address example_ins) (example_state\<lparr>imageBlacklist := []\<rparr>)
   \<and> TRACE_Instrumentation example_pin [[example_ins]] (example_state\<lparr>imageBlacklist := []\<rparr>)
       = ([(0x400010, IPOINT_BEFORE, Call_callbackBefore 2),
           (0x400010, IPOINT_AFTER, Call_callbackAfter)],
          example_state\<lparr>imageBlacklist := [], targetThreadId := 3, analysisTrigger := True\<rparr>)"
  using unlock_before_filter [of example_pin "[[example_ins]]" example_state example_ins]
        unlock_before_filter [of example_pin "[[example_ins]]" "example_state\<lparr>imageBlacklist := []\<rparr>" example_ins]
  by (simp add: example_pin_def example_ins_def example_state_def checkUnlockAnalysis_def
        getInsOffset_def toggleWrapper_def filterImage_def instructionBlacklisted_def
        instructionWhitelisted_def instrument_calls_def)

end
